theory Spec2Isabelle
  imports Main "HOL-Library.Multiset" "HOL-Library.List_Lexorder"
    "HOL-Library.Product_Lexorder" "HOL-Library.Char_ord"
begin

section \<open>Python values and exceptions\<close>

text \<open>
  \<^verbatim>\<open>json.load\<close> turns a result file into Python objects: \<^verbatim>\<open>None\<close>, booleans,
  unbounded integers, floats, strings, lists and dictionaries. A dictionary is an
  association list in insertion order, read with \<open>map_of\<close>; the keys of a Python
  dictionary are distinct. Floats only pass through the program or meet library
  arithmetic, so their type \<open>'f\<close> is left open. A character stands for one code point
  below 256.
\<close>

datatype 'f pyval =
    PNone
  | PBool bool
  | PInt int
  | PFloat 'f
  | PStr string
  | PList "'f pyval list"
  | PDict "(string \<times> 'f pyval) list"

datatype exn =
    KeyError string
  | TypeError
  | AttributeError
  | Exception string
  | OSError
  | JSONDecodeError

text \<open>\<open>v[k]\<close> for a string key \<open>k\<close>: only a dictionary can be subscripted by a string.\<close>

fun getitem :: "'f pyval \<Rightarrow> string \<Rightarrow> exn + 'f pyval" where
  "getitem (PDict kvs) k = (case map_of kvs k of None \<Rightarrow> Inl (KeyError k) | Some v \<Rightarrow> Inr v)"
| "getitem _ k = Inl TypeError"

text \<open>\<open>v.keys()\<close>: only a dictionary has the method.\<close>

fun keys :: "'f pyval \<Rightarrow> exn + string list" where
  "keys (PDict kvs) = Inr (map fst kvs)"
| "keys _ = Inl AttributeError"

text \<open>Sequencing of steps that may raise: the first exception ends the sequence.\<close>

fun and_then :: "exn + 'a \<Rightarrow> ('a \<Rightarrow> exn + 'b) \<Rightarrow> exn + 'b" where
  "and_then (Inl e) f = Inl e"
| "and_then (Inr x) f = f x"

section \<open>The pattern of the test type\<close>

text \<open>
  \<^verbatim>\<open>re.search(r'\s-t\s(.*?)\s', command).group(1)\<close>. For a \<^verbatim>\<open>str\<close> pattern
  \<^verbatim>\<open>\s\<close> is Unicode white space: below 256 these are the code points 9 to 13, 28 to
  32, 133 and 160. The dot matches every character but the line feed.
\<close>

definition is_space :: "char \<Rightarrow> bool" where
  "is_space c = ((of_char c :: nat) \<in> {9, 10, 11, 12, 13, 28, 29, 30, 31, 32, 133, 160})"

text \<open>The lazy group followed by \<^verbatim>\<open>\s\<close>: the shortest run that white space ends.\<close>

fun lazy_group :: "string \<Rightarrow> string option" where
  "lazy_group [] = None"
| "lazy_group (c # cs) =
     (if is_space c then Some []
      else if c = CHR 0x0A then None
      else map_option ((#) c) (lazy_group cs))"

text \<open>The pattern matched at the start of the string.\<close>

fun match_here :: "string \<Rightarrow> string option" where
  "match_here (a # d # t # b # rest) =
     (if is_space a \<and> d = CHR ''-'' \<and> t = CHR ''t'' \<and> is_space b
      then lazy_group rest else None)"
| "match_here _ = None"

text \<open>\<^verbatim>\<open>re.search\<close> takes the leftmost position where the pattern matches.\<close>

fun re_search :: "string \<Rightarrow> string option" where
  "re_search [] = None"
| "re_search (c # cs) =
     (case match_here (c # cs) of Some g \<Rightarrow> Some g | None \<Rightarrow> re_search cs)"

text \<open>
  \<^verbatim>\<open>re.search(...)\<close> wants a string; \<^verbatim>\<open>.group(1)\<close> on the \<^verbatim>\<open>None\<close> of a failed
  search is an attribute error.
\<close>

fun search_group :: "'f pyval \<Rightarrow> exn + string" where
  "search_group (PStr command) =
     (case re_search command of None \<Rightarrow> Inl AttributeError | Some g \<Rightarrow> Inr g)"
| "search_group _ = Inl TypeError"

section \<open>Extraction of the indicators of one record\<close>

text \<open>\<open>v // 1024\<close>: floor division of an integer (a boolean counts as 0 or 1); on a
  float it is the library's operation \<open>fdiv\<close>; any other operand is a type error.\<close>

fun floordiv_1024 :: "('f \<Rightarrow> 'f) \<Rightarrow> 'f pyval \<Rightarrow> exn + 'f pyval" where
  "floordiv_1024 fdiv (PInt n) = Inr (PInt (n div 1024))"
| "floordiv_1024 fdiv (PBool b) = Inr (PInt ((if b then 1 else 0) div 1024))"
| "floordiv_1024 fdiv (PFloat x) = Inr (PFloat (fdiv x))"
| "floordiv_1024 fdiv _ = Inl TypeError"

type_synonym 'f kpi = "string \<rightharpoonup> 'f pyval"

text \<open>The body run for a series named \<^verbatim>\<open>TCP upload\<close> or \<^verbatim>\<open>TCP download\<close>.\<close>

definition tcp_series :: "('f \<Rightarrow> 'f) \<Rightarrow> 'f pyval \<Rightarrow> string \<Rightarrow> 'f kpi \<Rightarrow> exn + 'f kpi" where
  \<open>tcp_series fdiv series_meta name perf_kpi =
     and_then (and_then (getitem series_meta name) (\<lambda>s. getitem s ''COMMAND'')) (\<lambda>command.
     and_then (search_group command) (\<lambda>g.
     let perf_kpi1 = perf_kpi(''type'' \<mapsto> PStr g) in
     and_then (and_then (getitem series_meta name) (\<lambda>s. getitem s ''UNITS'')) (\<lambda>unit.
     if unit \<noteq> PStr ''Mbits/s'' then Inl (Exception ''Bandwidth unit is not "Mbits/s".'')
     else
     and_then (and_then (getitem series_meta name) (\<lambda>s. getitem s ''MEAN_VALUE'')) (\<lambda>mean.
     let perf_kpi2 = perf_kpi1(''bw'' \<mapsto> mean) in
     and_then (and_then (getitem series_meta name) (\<lambda>s. getitem s ''SEND_SIZE'')) (\<lambda>size.
     and_then (floordiv_1024 fdiv size) (\<lambda>q.
     Inr (perf_kpi2(''msize'' \<mapsto> q))))))))\<close>

definition is_tcp :: "string \<Rightarrow> bool" where
  "is_tcp name = (name \<in> {''TCP upload'', ''TCP download''})"

text \<open>The loop over the names of the series.\<close>

fun series_loop :: "('f \<Rightarrow> 'f) \<Rightarrow> 'f pyval \<Rightarrow> string list \<Rightarrow> 'f kpi \<Rightarrow> exn + 'f kpi" where
  "series_loop fdiv series_meta [] perf_kpi = Inr perf_kpi"
| "series_loop fdiv series_meta (name # names) perf_kpi =
     (if name = ''Ping (ms) ICMP'' then series_loop fdiv series_meta names perf_kpi
      else if is_tcp name then
        and_then (tcp_series fdiv series_meta name perf_kpi)
          (series_loop fdiv series_meta names)
      else series_loop fdiv series_meta names perf_kpi)"

definition default_nan :: "string \<Rightarrow> 'f kpi \<Rightarrow> 'f kpi" where
  "default_nan key perf_kpi =
     (if key \<notin> dom perf_kpi then perf_kpi(key \<mapsto> PStr ''NaN'') else perf_kpi)"

text \<open>The body of the \<^verbatim>\<open>try\<close> statement.\<close>

definition extract_kpis :: "('f \<Rightarrow> 'f) \<Rightarrow> 'f pyval \<Rightarrow> exn + 'f kpi" where
  "extract_kpis fdiv raw_data =
     and_then (and_then (getitem raw_data ''metadata'') (\<lambda>m. getitem m ''SERIES_META''))
       (\<lambda>series_meta.
     and_then (keys series_meta) (\<lambda>names.
     and_then (series_loop fdiv series_meta names Map.empty) (\<lambda>perf_kpi.
     Inr (default_nan ''backend'' (default_nan ''round''
           (default_nan ''format'' (default_nan ''driver'' perf_kpi)))))))"

text \<open>What the program prints.\<close>

datatype message =
    Missing_param string
  | Error_json exn
  | Error_kpis exn
  | Note_dumping string
  | Note_finished
  | Error_csv exn

text \<open>
  \<^verbatim>\<open>_get_kpis_from_raw_data\<close>: the pair \<^verbatim>\<open>(0, perf_kpi)\<close> is \<open>Some perf_kpi\<close>, the pair
  \<^verbatim>\<open>(1, None)\<close> is \<open>None\<close>; the second component is what was printed.
\<close>

definition get_kpis_from_raw_data ::
    "('f \<Rightarrow> 'f) \<Rightarrow> 'f pyval \<Rightarrow> 'f kpi option \<times> message list" where
  "get_kpis_from_raw_data fdiv raw_data =
     (if raw_data = PStr [] then (None, [Missing_param ''raw_data''])
      else case extract_kpis fdiv raw_data of
             Inl err \<Rightarrow> (None, [Error_kpis err])
           | Inr perf_kpi \<Rightarrow> (Some perf_kpi, []))"

section \<open>Files, the class attributes and the output\<close>

text \<open>
  A regular file holds JSON text (given by the value that \<^verbatim>\<open>json.load\<close> returns for
  it), text that \<^verbatim>\<open>json.load\<close> rejects, or an archive with its members.
\<close>

datatype 'f filedata =
    Json "'f pyval"
  | Text string
  | Tar_gz "(string \<times> 'f filedata) list"

text \<open>
  \<open>raw_data_list\<close> and \<open>perf_kpi_list\<close> are the two lists created once in the body of
  the class \<^verbatim>\<open>FlentTestReporter\<close>; no method rebinds them, so every instance reads
  and appends to these two lists. \<open>files\<close> maps the path of each regular file to its
  content, \<open>listing\<close> is \<^verbatim>\<open>os.listdir\<close>, \<open>writable\<close> tells whether a path can be
  opened for writing, \<open>stdout\<close> is what was printed so far.
\<close>

record 'f state =
  raw_data_list :: "'f pyval list"
  perf_kpi_list :: "'f kpi list"
  files :: "string \<rightharpoonup> 'f filedata"
  listing :: "string \<Rightarrow> string list option"
  writable :: "string \<Rightarrow> bool"
  stdout :: "message list"

definition print :: "message list \<Rightarrow> 'f state \<Rightarrow> 'f state" where
  "print out st = st\<lparr>stdout := stdout st @ out\<rparr>"

definition isfile :: "'f state \<Rightarrow> string \<Rightarrow> bool" where
  "isfile st path = (files st path \<noteq> None)"

text \<open>\<^verbatim>\<open>json.load(open(data_file, 'r'))\<close>.\<close>

definition json_load :: "'f state \<Rightarrow> string \<Rightarrow> exn + 'f pyval" where
  "json_load st path =
     (case files st path of
        None \<Rightarrow> Inl OSError
      | Some (Json v) \<Rightarrow> Inr v
      | Some _ \<Rightarrow> Inl JSONDecodeError)"

text \<open>\<^verbatim>\<open>_get_raw_data_from_flent_log\<close>, with \<^verbatim>\<open>(0, raw_data)\<close> as \<open>Some raw_data\<close>.\<close>

definition get_raw_data_from_flent_log ::
    "'f state \<Rightarrow> string \<Rightarrow> 'f pyval option \<times> message list" where
  "get_raw_data_from_flent_log st data_file =
     (if data_file = [] then (None, [Missing_param ''data_file''])
      else case json_load st data_file of
             Inl err \<Rightarrow> (None, [Error_json err])
           | Inr raw_data \<Rightarrow> (Some raw_data, []))"

definition endswith :: "string \<Rightarrow> string \<Rightarrow> bool" where
  "endswith s suf = (length suf \<le> length s \<and> drop (length s - length suf) s = suf)"

text \<open>\<^verbatim>\<open>s.replace(old, new)\<close> for a non-empty \<open>old\<close>: every occurrence, from the left,
  without overlap. The counter skips the rest of an occurrence just replaced.\<close>

fun replace_from :: "string \<Rightarrow> string \<Rightarrow> nat \<Rightarrow> string \<Rightarrow> string" where
  "replace_from old new k [] = []"
| "replace_from old new (Suc k) (c # cs) = replace_from old new k cs"
| "replace_from old new 0 (c # cs) =
     (if take (length old) (c # cs) = old
      then new @ replace_from old new (length old - 1) cs
      else c # replace_from old new 0 cs)"

definition str_replace :: "string \<Rightarrow> string \<Rightarrow> string \<Rightarrow> string" where
  "str_replace s old new = replace_from old new 0 s"

text \<open>\<^verbatim>\<open>tar xf archive -C dest\<close>: the members of the archive become files under \<open>dest\<close>;
  a file that is no archive leaves everything as it is.\<close>

definition untar :: "(string \<rightharpoonup> 'f filedata) \<Rightarrow> string \<Rightarrow> string \<Rightarrow> (string \<rightharpoonup> 'f filedata)" where
  "untar fs archive dest =
     (case fs archive of
        Some (Tar_gz members) \<Rightarrow> fold (\<lambda>(n, f) fs'. fs'(dest @ ''/'' @ n \<mapsto> f)) members fs
      | _ \<Rightarrow> fs)"

text \<open>\<^verbatim>\<open>[ -e dir ] && rm -rf dir\<close>: \<open>dir\<close> and all that lies below it are gone.\<close>

definition remove_tree :: "(string \<rightharpoonup> 'f filedata) \<Rightarrow> string \<Rightarrow> (string \<rightharpoonup> 'f filedata)" where
  "remove_tree fs dir =
     (\<lambda>p. if p = dir \<or> take (length dir + 1) p = dir @ ''/'' then None else fs p)"

section \<open>The report table\<close>

text \<open>
  A table of the library \<^verbatim>\<open>pandas\<close>: the labels of the columns, the labels of the
  rows, and the rows; a cell is a Python value, or \<open>None\<close> where the value is
  missing. The operations below follow the documentation of the library.
\<close>

record 'f dataframe =
  df_columns :: "string list"
  df_index :: "int list"
  df_rows :: "'f pyval option list list"

text \<open>An instance of the class holds one attribute of its own, the report table, once
  \<^verbatim>\<open>_create_report_dataframe\<close> has assigned it; before that the attribute reads as
  the \<^verbatim>\<open>None\<close> of the class.\<close>

record 'f reporter =
  df_report :: "'f dataframe option"

definition FlentTestReporter :: "'f reporter" where
  "FlentTestReporter = \<lparr>df_report = None\<rparr>"

section \<open>Loading the raw data\<close>

definition tmpfolder :: string where
  "tmpfolder = ''/tmp/flent-report.tmp''"

text \<open>One turn of the loop over the directory.\<close>

definition load_entry :: "string \<Rightarrow> string \<Rightarrow> 'f state \<Rightarrow> 'f state" where
  "load_entry result_path fname st =
     (let filename = result_path @ ''/'' @ fname;
          (st1, filename1) =
            (if endswith filename ''.tar.gz'' \<and> isfile st filename
             then (st\<lparr>files := untar (files st) filename tmpfolder\<rparr>,
                   tmpfolder @ ''/'' @ str_replace fname ''.tar.gz'' ''.flent'')
             else (st, filename));
          st2 =
            (if endswith filename1 ''.flent'' \<and> isfile st1 filename1
             then (case get_raw_data_from_flent_log st1 filename1 of
                     (Some raw_data, out) \<Rightarrow>
                       (print out st1)\<lparr>raw_data_list := raw_data_list st1 @ [raw_data]\<rparr>
                   | (None, out) \<Rightarrow> print out st1)
             else st1)
      in st2\<lparr>files := remove_tree (files st2) tmpfolder\<rparr>)"

fun load_loop :: "string \<Rightarrow> string list \<Rightarrow> 'f state \<Rightarrow> 'f state" where
  "load_loop result_path [] st = st"
| "load_loop result_path (fname # fnames) st =
     load_loop result_path fnames (load_entry result_path fname st)"

text \<open>
  \<^verbatim>\<open>load_raw_data_from_flent_logs\<close>. The method catches nothing, so an error of
  \<^verbatim>\<open>os.listdir\<close> leaves it as an exception.
\<close>

definition load_raw_data_from_flent_logs ::
    "'f reporter \<Rightarrow> (string \<rightharpoonup> string) \<Rightarrow> 'f state \<Rightarrow> exn + (int \<times> 'f state)" where
  "load_raw_data_from_flent_logs self params st =
     (case params ''result_path'' of
        None \<Rightarrow> Inr (1, print [Missing_param ''params[result_path]''] st)
      | Some result_path \<Rightarrow>
          (case listing st result_path of
             None \<Rightarrow> Inl OSError
           | Some fnames \<Rightarrow> Inr (0, load_loop result_path fnames st)))"

section \<open>Calculating the indicators of the batch\<close>

fun calculate_loop :: "('f \<Rightarrow> 'f) \<Rightarrow> 'f pyval list \<Rightarrow> 'f state \<Rightarrow> int \<times> 'f state" where
  "calculate_loop fdiv [] st = (0, st)"
| "calculate_loop fdiv (raw_data # rest) st =
     (case get_kpis_from_raw_data fdiv raw_data of
        (Some perf_kpi, out) \<Rightarrow>
          calculate_loop fdiv rest
            ((print out st)\<lparr>perf_kpi_list := perf_kpi_list st @ [perf_kpi]\<rparr>)
      | (None, out) \<Rightarrow> (1, print out st))"

definition calculate_performance_kpis ::
    "('f \<Rightarrow> 'f) \<Rightarrow> 'f reporter \<Rightarrow> 'f state \<Rightarrow> int \<times> 'f state" where
  "calculate_performance_kpis fdiv self st = calculate_loop fdiv (raw_data_list st) st"

section \<open>Operations on the report table\<close>

text \<open>What the program leaves to its libraries: floor division by 1024 on floats, the
  order in which \<^verbatim>\<open>sort_values\<close> ranks the values of a column (the value \<open>sort_code\<close>
  gives to a cell, in a linear order), rounding a float to four decimals, and the text
  of a field of the CSV output.\<close>

record ('f, 'k) library =
  float_floordiv_1024 :: "'f \<Rightarrow> 'f"
  sort_code :: "'f pyval option \<Rightarrow> 'k"
  round4 :: "'f \<Rightarrow> 'f"
  csv_field :: "'f pyval option \<Rightarrow> string"

text \<open>\<^verbatim>\<open>pd.DataFrame(records, columns=...)\<close> on a list of dictionaries.\<close>

definition DataFrame :: "'f kpi list \<Rightarrow> string list \<Rightarrow> 'f dataframe" where
  "DataFrame records cols =
     \<lparr>df_columns = cols,
      df_index = map int [0..<length records],
      df_rows = map (\<lambda>r. map r cols) records\<rparr>"

definition rename :: "(string \<times> string) list \<Rightarrow> 'f dataframe \<Rightarrow> 'f dataframe" where
  "rename mapping df =
     df\<lparr>df_columns := map (\<lambda>c. case map_of mapping c of Some c' \<Rightarrow> c' | None \<Rightarrow> c)
                          (df_columns df)\<rparr>"

text \<open>The cell of a row under a column label (missing when there is no such column;
  the program sorts by columns it has just created).\<close>

definition cell :: "string list \<Rightarrow> 'f pyval option list \<Rightarrow> string \<Rightarrow> 'f pyval option" where
  "cell cols row c = (case map_of (zip cols row) c of Some v \<Rightarrow> v | None \<Rightarrow> None)"

definition sort_tuple ::
    "('f pyval option \<Rightarrow> 'k) \<Rightarrow> string list \<Rightarrow> string list \<Rightarrow> int \<times> 'f pyval option list \<Rightarrow> 'k list" where
  "sort_tuple code cols by_cols labelled = map (\<lambda>c. code (cell cols (snd labelled) c)) by_cols"

text \<open>\<^verbatim>\<open>df.sort_values(by=[...])\<close> with several columns: ascending and stable, each
  row keeps its label.\<close>

definition sort_values ::
    "('f pyval option \<Rightarrow> 'k::linorder) \<Rightarrow> string list \<Rightarrow> 'f dataframe \<Rightarrow> 'f dataframe" where
  "sort_values code by_cols df =
     (let labelled = sort_key (sort_tuple code (df_columns df) by_cols)
                       (zip (df_index df) (df_rows df))
      in df\<lparr>df_index := map fst labelled, df_rows := map snd labelled\<rparr>)"

text \<open>\<^verbatim>\<open>df.reset_index()\<close>: the old labels become the first column, the rows are
  numbered from zero.\<close>

definition reset_index :: "'f dataframe \<Rightarrow> 'f dataframe" where
  "reset_index df =
     \<lparr>df_columns =
        (if ''index'' \<in> set (df_columns df) then ''level_0'' else ''index'') # df_columns df,
      df_index = map int [0..<length (df_rows df)],
      df_rows = map (\<lambda>(i, row). Some (PInt i) # row) (zip (df_index df) (df_rows df))\<rparr>"

text \<open>\<^verbatim>\<open>df.drop(columns=[...])\<close>.\<close>

definition drop_columns :: "string list \<Rightarrow> 'f dataframe \<Rightarrow> 'f dataframe" where
  "drop_columns names df =
     df\<lparr>df_columns := filter (\<lambda>c. c \<notin> set names) (df_columns df),
        df_rows := map (\<lambda>row. map snd (filter (\<lambda>(c, v). c \<notin> set names)
                                           (zip (df_columns df) row)))
                       (df_rows df)\<rparr>"

text \<open>\<^verbatim>\<open>df.round(4)\<close> rounds the floats of the numeric columns, those with numbers and
  missing values only, and leaves the other columns as they are.\<close>

fun is_number :: "'f pyval option \<Rightarrow> bool" where
  "is_number None = True"
| "is_number (Some (PInt n)) = True"
| "is_number (Some (PFloat x)) = True"
| "is_number _ = False"

fun round_cell :: "('f \<Rightarrow> 'f) \<Rightarrow> 'f pyval option \<Rightarrow> 'f pyval option" where
  "round_cell rnd (Some (PFloat x)) = Some (PFloat (rnd x))"
| "round_cell rnd v = v"

definition numeric_columns :: "'f dataframe \<Rightarrow> bool list" where
  "numeric_columns df =
     foldr (\<lambda>row flags. map (\<lambda>(v, b). is_number v \<and> b) (zip row flags)) (df_rows df)
       (replicate (length (df_columns df)) True)"

definition df_round :: "('f \<Rightarrow> 'f) \<Rightarrow> 'f dataframe \<Rightarrow> 'f dataframe" where
  "df_round rnd df =
     df\<lparr>df_rows := map (\<lambda>row. map (\<lambda>(v, b). if b then round_cell rnd v else v)
                                   (zip row (numeric_columns df)))
                       (df_rows df)\<rparr>"

text \<open>\<^verbatim>\<open>df.to_csv()\<close>: a header line whose first field, over the row labels, is
  empty, then one line for each row, led by its label.\<close>

fun join :: "string \<Rightarrow> string list \<Rightarrow> string" where
  "join sep [] = []"
| "join sep [x] = x"
| "join sep (x # y # ys) = x @ sep @ join sep (y # ys)"

definition csv_lines :: "('f pyval option \<Rightarrow> string) \<Rightarrow> 'f dataframe \<Rightarrow> string list" where
  "csv_lines field df =
     join '','' ([] # df_columns df) #
     map (\<lambda>(i, row). join '','' (field (Some (PInt i)) # map field row))
         (zip (df_index df) (df_rows df))"

definition to_csv :: "('f pyval option \<Rightarrow> string) \<Rightarrow> 'f dataframe \<Rightarrow> string" where
  "to_csv field df = concat (map (\<lambda>line. line @ [CHR 0x0A]) (csv_lines field df))"

section \<open>The reporter and the whole run\<close>

definition create_report_dataframe :: "'f reporter \<Rightarrow> 'f state \<Rightarrow> 'f reporter" where
  "create_report_dataframe self st =
     self\<lparr>df_report := Some (rename
       [(''backend'', ''Backend''), (''driver'', ''Driver''), (''format'', ''Format''),
        (''type'', ''Type''), (''msize'', ''MSize(Kbits)''), (''round'', ''Round''),
        (''bw'', ''BW(Mbits/s)'')]
       (DataFrame (perf_kpi_list st)
          [''backend'', ''driver'', ''format'', ''type'', ''msize'', ''round'', ''bw'']))\<rparr>"

definition sort_columns :: "string list" where
  "sort_columns = [''Backend'', ''Driver'', ''Format'', ''Type'', ''MSize(Kbits)'', ''Round'']"

text \<open>\<^verbatim>\<open>_format_report_dataframe\<close>; without a table the first call on it raises.\<close>

definition format_report_dataframe ::
    "('f, 'k::linorder) library \<Rightarrow> 'f reporter \<Rightarrow> exn + 'f reporter" where
  "format_report_dataframe lib self =
     (case df_report self of
        None \<Rightarrow> Inl AttributeError
      | Some df \<Rightarrow>
          Inr (self\<lparr>df_report := Some (df_round (round4 lib)
                 (drop_columns [''index'']
                    (reset_index (sort_values (sort_code lib) sort_columns df))))\<rparr>))"

definition generate_report_dataframe ::
    "('f, 'k::linorder) library \<Rightarrow> 'f reporter \<Rightarrow> 'f state \<Rightarrow> exn + 'f reporter" where
  "generate_report_dataframe lib self st =
     format_report_dataframe lib (create_report_dataframe self st)"

text \<open>\<^verbatim>\<open>report_dataframe_to_csv\<close>: whatever fails between the first note and the second
  is caught and reported.\<close>

definition report_dataframe_to_csv ::
    "('f, 'k) library \<Rightarrow> 'f reporter \<Rightarrow> (string \<rightharpoonup> string) \<Rightarrow> 'f state \<Rightarrow> int \<times> 'f state" where
  "report_dataframe_to_csv lib self params st =
     (case params ''report_csv'' of
        None \<Rightarrow> (1, print [Missing_param ''params[report_csv]''] st)
      | Some report_csv \<Rightarrow>
          (let st1 = print [Note_dumping report_csv] st in
           case df_report self of
             None \<Rightarrow> (1, print [Error_csv AttributeError] st1)
           | Some df \<Rightarrow>
               if writable st1 report_csv
               then (0, print [Note_finished]
                          (st1\<lparr>files := (files st1)(report_csv \<mapsto>
                                  Text (to_csv (csv_field lib) df))\<rparr>))
               else (1, print [Error_csv OSError] st1)))"

text \<open>How the process ends: \<^verbatim>\<open>exit(n)\<close>, or an exception that nothing catches.\<close>

datatype outcome = Exit int | Uncaught exn

text \<open>\<^verbatim>\<open>generate_flent_test_report\<close>.\<close>

definition generate_flent_test_report ::
    "('f, 'k::linorder) library \<Rightarrow> string \<Rightarrow> string \<Rightarrow> 'f state \<Rightarrow> outcome \<times> 'f reporter \<times> 'f state" where
  "generate_flent_test_report lib result_path report_csv st =
     (let flentreporter = FlentTestReporter in
      case load_raw_data_from_flent_logs flentreporter [''result_path'' \<mapsto> result_path] st of
        Inl err \<Rightarrow> (Uncaught err, flentreporter, st)
      | Inr (return_value, st1) \<Rightarrow>
          if return_value \<noteq> 0 then (Exit 1, flentreporter, st1)
          else case calculate_performance_kpis (float_floordiv_1024 lib) flentreporter st1 of
            (return_value, st2) \<Rightarrow>
              if return_value \<noteq> 0 then (Exit 1, flentreporter, st2)
              else case generate_report_dataframe lib flentreporter st2 of
                Inl err \<Rightarrow> (Uncaught err, flentreporter, st2)
              | Inr flentreporter1 \<Rightarrow>
                  (case report_dataframe_to_csv lib flentreporter1
                          [''report_csv'' \<mapsto> report_csv] st2 of
                     (return_value, st3) \<Rightarrow>
                       if return_value \<noteq> 0 then (Exit 1, flentreporter1, st3)
                       else (Exit 0, flentreporter1, st3)))"

section \<open>Facts about the extraction\<close>

lemma and_then_Inr_iff: "and_then m f = Inr y \<longleftrightarrow> (\<exists>x. m = Inr x \<and> f x = Inr y)"
  by (cases m) auto

lemma search_group_Inr_iff:
  "search_group v = Inr g \<longleftrightarrow> (\<exists>command. v = PStr command \<and> re_search command = Some g)"
  by (cases v) (auto split: option.splits)

lemma tcp_series_Inr_iff:
  "tcp_series fdiv series_meta name perf_kpi = Inr perf_kpi' \<longleftrightarrow>
     (\<exists>entry command g mean size q.
        getitem series_meta name = Inr entry \<and>
        getitem entry ''COMMAND'' = Inr (PStr command) \<and> re_search command = Some g \<and>
        getitem entry ''UNITS'' = Inr (PStr ''Mbits/s'') \<and>
        getitem entry ''MEAN_VALUE'' = Inr mean \<and>
        getitem entry ''SEND_SIZE'' = Inr size \<and> floordiv_1024 fdiv size = Inr q \<and>
        perf_kpi' = perf_kpi(''type'' \<mapsto> PStr g, ''bw'' \<mapsto> mean, ''msize'' \<mapsto> q))"
  unfolding tcp_series_def Let_def
  by (auto simp: and_then_Inr_iff search_group_Inr_iff split: if_splits)

lemma is_tcp_not_ping: "is_tcp name \<Longrightarrow> name \<noteq> ''Ping (ms) ICMP''"
  by (auto simp: is_tcp_def)

lemma series_loop_filter:
  "series_loop fdiv series_meta names perf_kpi =
   series_loop fdiv series_meta (filter is_tcp names) perf_kpi"
proof (induction names arbitrary: perf_kpi)
  case Nil
  show ?case by simp
next
  case (Cons name names)
  show ?case
  proof (cases "is_tcp name")
    case True
    then have "name \<noteq> ''Ping (ms) ICMP''" by (rule is_tcp_not_ping)
    with True Cons show ?thesis
      by (cases "tcp_series fdiv series_meta name perf_kpi") simp_all
  next
    case False
    with Cons show ?thesis by simp
  qed
qed

lemma series_loop_tcp_Cons:
  "is_tcp name \<Longrightarrow>
   series_loop fdiv series_meta (name # names) perf_kpi =
   and_then (tcp_series fdiv series_meta name perf_kpi) (series_loop fdiv series_meta names)"
  by (simp add: is_tcp_not_ping)

lemma tcp_series_dom:
  "tcp_series fdiv series_meta name perf_kpi = Inr perf_kpi' \<Longrightarrow>
   dom perf_kpi' = dom perf_kpi \<union> {''type'', ''bw'', ''msize''}"
  by (auto simp: tcp_series_Inr_iff)

lemma tcp_series_other:
  "tcp_series fdiv series_meta name perf_kpi = Inr perf_kpi' \<Longrightarrow>
   x \<notin> {''type'', ''bw'', ''msize''} \<Longrightarrow> perf_kpi' x = perf_kpi x"
  by (auto simp: tcp_series_Inr_iff)

lemma series_loop_dom:
  "series_loop fdiv series_meta names perf_kpi = Inr perf_kpi' \<Longrightarrow>
   dom perf_kpi' =
     dom perf_kpi \<union> (if \<exists>n\<in>set names. is_tcp n then {''type'', ''bw'', ''msize''} else {})"
proof (induction names arbitrary: perf_kpi)
  case Nil
  then show ?case by simp
next
  case (Cons name names)
  show ?case
  proof (cases "is_tcp name")
    case True
    from Cons.prems(1) have
      "and_then (tcp_series fdiv series_meta name perf_kpi)
         (series_loop fdiv series_meta names) = Inr perf_kpi'"
      unfolding series_loop_tcp_Cons [OF True] .
    then obtain k1 where
      k1: "tcp_series fdiv series_meta name perf_kpi = Inr k1"
      and rest: "series_loop fdiv series_meta names k1 = Inr perf_kpi'"
      unfolding and_then_Inr_iff by blast
    from Cons.IH [OF rest] tcp_series_dom [OF k1] True show ?thesis by auto
  next
    case False
    with Cons.prems have "series_loop fdiv series_meta names perf_kpi = Inr perf_kpi'"
      by (simp split: if_splits)
    from Cons.IH [OF this] False show ?thesis by simp
  qed
qed

lemma series_loop_other:
  "series_loop fdiv series_meta names perf_kpi = Inr perf_kpi' \<Longrightarrow>
   x \<notin> {''type'', ''bw'', ''msize''} \<Longrightarrow> perf_kpi' x = perf_kpi x"
proof (induction names arbitrary: perf_kpi)
  case Nil
  then show ?case by simp
next
  case (Cons name names)
  show ?case
  proof (cases "is_tcp name")
    case True
    from Cons.prems(1) have
      "and_then (tcp_series fdiv series_meta name perf_kpi)
         (series_loop fdiv series_meta names) = Inr perf_kpi'"
      unfolding series_loop_tcp_Cons [OF True] .
    then obtain k1 where
      k1: "tcp_series fdiv series_meta name perf_kpi = Inr k1"
      and rest: "series_loop fdiv series_meta names k1 = Inr perf_kpi'"
      unfolding and_then_Inr_iff by blast
    from Cons.IH [OF rest Cons.prems(2)] tcp_series_other [OF k1 Cons.prems(2)]
    show ?thesis by simp
  next
    case False
    with Cons.prems have "series_loop fdiv series_meta names perf_kpi = Inr perf_kpi'"
      by (simp split: if_splits)
    from Cons.IH [OF this Cons.prems(2)] show ?thesis .
  qed
qed

lemma get_kpis_Some_iff:
  "get_kpis_from_raw_data fdiv raw_data = (Some perf_kpi, out) \<longleftrightarrow>
   (out = [] \<and> extract_kpis fdiv raw_data = Inr perf_kpi)"
proof (cases "raw_data = PStr []")
  case True
  then show ?thesis
    by (simp add: get_kpis_from_raw_data_def extract_kpis_def)
next
  case False
  then show ?thesis
    by (auto simp: get_kpis_from_raw_data_def split: sum.splits)
qed

lemma extract_kpis_Inr_iff:
  "extract_kpis fdiv raw_data = Inr perf_kpi \<longleftrightarrow>
   (\<exists>md series k.
      getitem raw_data ''metadata'' = Inr md \<and>
      getitem md ''SERIES_META'' = Inr (PDict series) \<and>
      series_loop fdiv (PDict series) (filter is_tcp (map fst series)) Map.empty = Inr k \<and>
      perf_kpi = default_nan ''backend'' (default_nan ''round''
                   (default_nan ''format'' (default_nan ''driver'' k))))"
proof -
  have keys_iff: "keys v = Inr names \<longleftrightarrow> (\<exists>series. v = PDict series \<and> names = map fst series)"
    for v :: "'a pyval" and names
    by (cases v) auto
  show ?thesis
    unfolding extract_kpis_def and_then_Inr_iff keys_iff
    by (subst series_loop_filter) auto
qed

lemma lazy_group_token:
  "\<forall>x\<in>set tok. \<not> is_space x \<Longrightarrow> is_space c \<Longrightarrow> lazy_group (tok @ c # post) = Some tok"
proof (induction tok)
  case Nil
  then show ?case by simp
next
  case (Cons x tok)
  then have "\<not> is_space x" by simp
  moreover have "is_space (CHR 0x0A)" by (simp add: is_space_def)
  ultimately have "x \<noteq> CHR 0x0A" by auto
  with Cons show ?case by simp
qed

lemma space_not_dash: "is_space a \<Longrightarrow> a \<noteq> CHR ''-'' \<and> a \<noteq> CHR ''t''"
  by (auto simp: is_space_def)

lemma re_search_first_occurrence:
  assumes "is_space a" "is_space b" "is_space c" "\<forall>x\<in>set tok. \<not> is_space x"
    and "\<not> (\<exists>u x y v. pre @ [a] = u @ x # ''-t'' @ y # v \<and> is_space x \<and> is_space y)"
  shows "re_search (pre @ a # ''-t'' @ b # tok @ c # post) = Some tok"
  using assms(5)
proof (induction pre)
  case Nil
  from assms(1-4) show ?case by (simp add: lazy_group_token)
next
  case (Cons p ps)
  have no: "\<not> (\<exists>u x y v. ps @ [a] = u @ x # ''-t'' @ y # v \<and> is_space x \<and> is_space y)"
  proof
    assume "\<exists>u x y v. ps @ [a] = u @ x # ''-t'' @ y # v \<and> is_space x \<and> is_space y"
    then obtain u x y v where "ps @ [a] = u @ x # ''-t'' @ y # v"
      and "is_space x" "is_space y" by blast
    then have "(p # ps) @ [a] = (p # u) @ x # ''-t'' @ y # v \<and> is_space x \<and> is_space y"
      by simp
    with Cons.prems show False by blast
  qed
  have "match_here (p # ps @ a # ''-t'' @ b # tok @ c # post) = None"
  proof (cases ps)
    case Nil
    with assms(1) show ?thesis by (simp add: space_not_dash)
  next
    case (Cons q qs)
    note ps = this
    show ?thesis
    proof (cases qs)
      case Nil
      with ps assms(1) show ?thesis by (simp add: space_not_dash)
    next
      case (Cons r rs)
      note qs = this
      show ?thesis
      proof (cases rs)
        case Nil
        have "\<not> (is_space p \<and> q = CHR ''-'' \<and> r = CHR ''t'')"
        proof
          assume "is_space p \<and> q = CHR ''-'' \<and> r = CHR ''t''"
          with ps qs Nil assms(1)
          have "(p # ps) @ [a] = [] @ p # ''-t'' @ a # [] \<and> is_space p \<and> is_space a"
            by simp
          with Cons.prems show False by blast
        qed
        with ps qs Nil show ?thesis by auto
      next
        case (Cons y ys)
        have "\<not> (is_space p \<and> q = CHR ''-'' \<and> r = CHR ''t'' \<and> is_space y)"
        proof
          assume "is_space p \<and> q = CHR ''-'' \<and> r = CHR ''t'' \<and> is_space y"
          with ps qs Cons
          have "(p # ps) @ [a] = [] @ p # ''-t'' @ y # (ys @ [a]) \<and> is_space p \<and> is_space y"
            by simp
          with Cons.prems show False by blast
        qed
        with ps qs Cons show ?thesis by auto
      qed
    qed
  qed
  with Cons.IH [OF no] show ?case by simp
qed

lemma default_nan_apply:
  "default_nan key k x = (if x = key \<and> k key = None then Some (PStr ''NaN'') else k x)"
  by (auto simp: default_nan_def dom_def)

lemma dom_default_nan: "dom (default_nan key k) = insert key (dom k)"
  by (auto simp: default_nan_def)

text \<open>
  C1 (as amended). When the only series named \<^verbatim>\<open>TCP upload\<close> or \<^verbatim>\<open>TCP download\<close> has
  the unit \<^verbatim>\<open>Mbits/s\<close>, a mean value, an integer send size and a command in which the
  first white space, \<^verbatim>\<open>-t\<close>, white space is followed by a run of characters without
  white space and then by white space, the extraction succeeds: \<open>type\<close> is that run,
  \<open>bw\<close> is the mean value and \<open>msize\<close> is the send size divided by 1024, rounded down.
\<close>

theorem single_series_kpis:
  assumes "getitem raw_data ''metadata'' = Inr md"
    and "getitem md ''SERIES_META'' = Inr (PDict series)"
    and "filter is_tcp (map fst series) = [name]"
    and "map_of series name = Some entry"
    and "getitem entry ''UNITS'' = Inr (PStr ''Mbits/s'')"
    and "getitem entry ''COMMAND'' = Inr (PStr (pre @ a # ''-t'' @ b # tok @ c # post))"
    and "is_space a" and "is_space b" and "is_space c"
    and "\<forall>x\<in>set tok. \<not> is_space x"
    and "\<not> (\<exists>u x y v. pre @ [a] = u @ x # ''-t'' @ y # v \<and> is_space x \<and> is_space y)"
    and "getitem entry ''MEAN_VALUE'' = Inr mean"
    and "getitem entry ''SEND_SIZE'' = Inr (PInt n)"
  shows "\<exists>perf_kpi. get_kpis_from_raw_data fdiv raw_data = (Some perf_kpi, []) \<and>
           perf_kpi ''type'' = Some (PStr tok) \<and>
           perf_kpi ''bw'' = Some mean \<and>
           perf_kpi ''msize'' = Some (PInt (n div 1024))"
proof -
  let ?k = "Map.empty(''type'' \<mapsto> PStr tok, ''bw'' \<mapsto> mean, ''msize'' \<mapsto> PInt (n div 1024))"
  let ?kpi = "default_nan ''backend'' (default_nan ''round''
                (default_nan ''format'' (default_nan ''driver'' ?k)))"
  have search: "re_search (pre @ a # ''-t'' @ b # tok @ c # post) = Some tok"
    using assms(7-11) by (rule re_search_first_occurrence)
  from assms(3) have "name \<in> set (filter is_tcp (map fst series))" by simp
  then have tcp: "is_tcp name" by simp
  have "tcp_series fdiv (PDict series) name Map.empty = Inr ?k"
    unfolding tcp_series_Inr_iff
    using assms(4,5,6,12,13) search by auto
  with tcp have "series_loop fdiv (PDict series) [name] Map.empty = Inr ?k"
    by (simp add: is_tcp_not_ping)
  with assms(1,2,3) have "extract_kpis fdiv raw_data = Inr ?kpi"
    unfolding extract_kpis_Inr_iff by auto
  then have "get_kpis_from_raw_data fdiv raw_data = (Some ?kpi, [])"
    by (simp add: get_kpis_Some_iff)
  moreover have "?kpi ''type'' = Some (PStr tok)" "?kpi ''bw'' = Some mean"
    "?kpi ''msize'' = Some (PInt (n div 1024))"
    by (simp_all add: default_nan_apply)
  ultimately show ?thesis by blast
qed

theorem single_series_kpis_witness:
  "\<exists>perf_kpi.
     get_kpis_from_raw_data (\<lambda>x::int. x)
       (PDict [(''metadata'', PDict [(''SERIES_META'', PDict
          [(''Ping (ms) ICMP'', PDict []),
           (''TCP upload'', PDict
              [(''COMMAND'', PStr ''netperf -H perf-test -t TCP_STREAM -l 60''),
               (''UNITS'', PStr ''Mbits/s''), (''MEAN_VALUE'', PInt 941),
               (''SEND_SIZE'', PInt 131072)])])])]) = (Some perf_kpi, []) \<and>
     perf_kpi ''type'' = Some (PStr ''TCP_STREAM'') \<and>
     perf_kpi ''bw'' = Some (PInt 941) \<and>
     perf_kpi ''msize'' = Some (PInt 128)"
proof -
  have no_flag: "\<not> (\<exists>u x y v. ''netperf -H perf-test'' @ [CHR '' ''] = u @ x # ''-t'' @ y # v
      \<and> is_space x \<and> is_space y)"
    by (auto simp: Cons_eq_append_conv is_space_def)
  have sp: "is_space CHR '' ''" by (simp add: is_space_def)
  have tok: "\<forall>x\<in>set ''TCP_STREAM''. \<not> is_space x" by (simp add: is_space_def)
  show ?thesis
    using single_series_kpis [where fdiv = "\<lambda>x::int. x"
        and raw_data = "PDict [(''metadata'', PDict [(''SERIES_META'', PDict
          [(''Ping (ms) ICMP'', PDict []),
           (''TCP upload'', PDict
              [(''COMMAND'', PStr ''netperf -H perf-test -t TCP_STREAM -l 60''),
               (''UNITS'', PStr ''Mbits/s''), (''MEAN_VALUE'', PInt 941),
               (''SEND_SIZE'', PInt 131072)])])])]"
        and name = "''TCP upload''" and pre = "''netperf -H perf-test''" and a = "CHR '' ''"
        and b = "CHR '' ''" and c = "CHR '' ''" and tok = "''TCP_STREAM''"
        and post = "''-l 60''" and n = 131072 and mean = "PInt 941",
        OF _ _ _ _ _ _ sp sp sp tok no_flag]
    by (simp add: is_tcp_def)
qed

text \<open>
  C1 (as stated) fails: without white space after the token, and without a command,
  the extraction fails although the only series has the unit \<^verbatim>\<open>Mbits/s\<close>.
\<close>

theorem single_series_kpis_counterexample:
  "filter is_tcp (map fst
      [(''TCP upload'', PDict
          [(''COMMAND'', PStr ''netperf -H host -t TCP_STREAM''),
           (''UNITS'', PStr ''Mbits/s''), (''MEAN_VALUE'', PInt 941),
           (''SEND_SIZE'', PInt 131072)] :: int pyval)]) = [''TCP upload''] \<and>
   get_kpis_from_raw_data (\<lambda>x::int. x)
     (PDict [(''metadata'', PDict [(''SERIES_META'', PDict
        [(''TCP upload'', PDict
            [(''COMMAND'', PStr ''netperf -H host -t TCP_STREAM''),
             (''UNITS'', PStr ''Mbits/s''), (''MEAN_VALUE'', PInt 941),
             (''SEND_SIZE'', PInt 131072)])])])])
     = (None, [Error_kpis AttributeError]) \<and>
   get_kpis_from_raw_data (\<lambda>x::int. x)
     (PDict [(''metadata'', PDict [(''SERIES_META'', PDict
        [(''TCP upload'', PDict [(''UNITS'', PStr ''Mbits/s'')])])])])
     = (None, [Error_kpis (KeyError ''COMMAND'')])"
  by (simp add: get_kpis_from_raw_data_def extract_kpis_def tcp_series_def is_tcp_def
      is_space_def)

text \<open>
  C3 (as amended). A record whose extraction succeeds has the four keys \<open>driver\<close>,
  \<open>format\<close>, \<open>round\<close> and \<open>backend\<close>, each with the string \<^verbatim>\<open>NaN\<close>, and it has the
  three keys \<open>type\<close>, \<open>bw\<close> and \<open>msize\<close> exactly when the record has a series named
  \<^verbatim>\<open>TCP upload\<close> or \<^verbatim>\<open>TCP download\<close>; it has no other key.
\<close>

theorem kpi_record_keys:
  assumes "get_kpis_from_raw_data fdiv raw_data = (Some perf_kpi, out)"
  shows "\<exists>md series.
           getitem raw_data ''metadata'' = Inr md \<and>
           getitem md ''SERIES_META'' = Inr (PDict series) \<and>
           dom perf_kpi =
             {''backend'', ''driver'', ''format'', ''round''} \<union>
             (if \<exists>name\<in>set (map fst series). is_tcp name
              then {''type'', ''msize'', ''bw''} else {}) \<and>
           perf_kpi ''driver'' = Some (PStr ''NaN'') \<and>
           perf_kpi ''format'' = Some (PStr ''NaN'') \<and>
           perf_kpi ''round'' = Some (PStr ''NaN'') \<and>
           perf_kpi ''backend'' = Some (PStr ''NaN'')"
proof -
  from assms have "extract_kpis fdiv raw_data = Inr perf_kpi"
    by (simp add: get_kpis_Some_iff)
  then obtain md series k where
    md: "getitem raw_data ''metadata'' = Inr md"
    and sm: "getitem md ''SERIES_META'' = Inr (PDict series)"
    and loop: "series_loop fdiv (PDict series) (filter is_tcp (map fst series)) Map.empty = Inr k"
    and kpi: "perf_kpi = default_nan ''backend'' (default_nan ''round''
                (default_nan ''format'' (default_nan ''driver'' k)))"
    unfolding extract_kpis_Inr_iff by blast
  have other: "k x = None" if "x \<notin> {''type'', ''bw'', ''msize''}" for x
    using series_loop_other [OF loop that] by simp
  have d: "k ''driver'' = None" and f: "k ''format'' = None"
    and r: "k ''round'' = None" and b: "k ''backend'' = None"
    by (rule other, simp)+
  have "dom k = (if \<exists>name\<in>set (map fst series). is_tcp name
                 then {''type'', ''bw'', ''msize''} else {})"
    using series_loop_dom [OF loop] by auto
  then have "dom perf_kpi =
      {''backend'', ''driver'', ''format'', ''round''} \<union>
      (if \<exists>name\<in>set (map fst series). is_tcp name then {''type'', ''msize'', ''bw''} else {})"
    unfolding kpi dom_default_nan by auto
  moreover have "perf_kpi ''driver'' = Some (PStr ''NaN'')"
    "perf_kpi ''format'' = Some (PStr ''NaN'')"
    "perf_kpi ''round'' = Some (PStr ''NaN'')"
    "perf_kpi ''backend'' = Some (PStr ''NaN'')"
    unfolding kpi by (simp_all add: default_nan_apply d f r b)
  ultimately show ?thesis using md sm by blast
qed

text \<open>
  C3 (as stated) fails: a record with the latency series only is extracted with
  success and has four keys, not seven.
\<close>

theorem kpi_record_keys_counterexample:
  "map_option dom (fst (get_kpis_from_raw_data (\<lambda>x::int. x)
     (PDict [(''metadata'', PDict [(''SERIES_META'', PDict
        [(''Ping (ms) ICMP'', PDict [(''UNITS'', PStr ''ms'')])])])])))
   = Some {''driver'', ''format'', ''round'', ''backend''}"
  by (auto simp: get_kpis_from_raw_data_def extract_kpis_def dom_default_nan)

theorem kpi_record_keys_witness:
  "\<exists>md series.
     getitem (PDict [(''metadata'', PDict [(''SERIES_META'', PDict
        [(''TCP download'', PDict
            [(''COMMAND'', PStr ''netperf -t TCP_MAERTS -l 60''),
             (''UNITS'', PStr ''Mbits/s''), (''MEAN_VALUE'', PInt 7),
             (''SEND_SIZE'', PInt 2048)])])])] :: int pyval) ''metadata'' = Inr md \<and>
     getitem md ''SERIES_META'' = Inr (PDict series) \<and>
     dom ([''type'' \<mapsto> PStr ''TCP_MAERTS'', ''bw'' \<mapsto> PInt 7, ''msize'' \<mapsto> PInt 2,
          ''driver'' \<mapsto> PStr ''NaN'', ''format'' \<mapsto> PStr ''NaN'',
          ''round'' \<mapsto> PStr ''NaN'', ''backend'' \<mapsto> PStr ''NaN''] :: string \<rightharpoonup> int pyval) =
       {''backend'', ''driver'', ''format'', ''round''} \<union>
       (if \<exists>name\<in>set (map fst series). is_tcp name
        then {''type'', ''msize'', ''bw''} else {}) \<and>
     ([''type'' \<mapsto> PStr ''TCP_MAERTS'', ''bw'' \<mapsto> PInt 7, ''msize'' \<mapsto> PInt 2,
          ''driver'' \<mapsto> PStr ''NaN'', ''format'' \<mapsto> PStr ''NaN'',
          ''round'' \<mapsto> PStr ''NaN'', ''backend'' \<mapsto> PStr ''NaN''] :: string \<rightharpoonup> int pyval)
        ''driver'' = Some (PStr ''NaN'') \<and>
     ([''type'' \<mapsto> PStr ''TCP_MAERTS'', ''bw'' \<mapsto> PInt 7, ''msize'' \<mapsto> PInt 2,
          ''driver'' \<mapsto> PStr ''NaN'', ''format'' \<mapsto> PStr ''NaN'',
          ''round'' \<mapsto> PStr ''NaN'', ''backend'' \<mapsto> PStr ''NaN''] :: string \<rightharpoonup> int pyval)
        ''format'' = Some (PStr ''NaN'') \<and>
     ([''type'' \<mapsto> PStr ''TCP_MAERTS'', ''bw'' \<mapsto> PInt 7, ''msize'' \<mapsto> PInt 2,
          ''driver'' \<mapsto> PStr ''NaN'', ''format'' \<mapsto> PStr ''NaN'',
          ''round'' \<mapsto> PStr ''NaN'', ''backend'' \<mapsto> PStr ''NaN''] :: string \<rightharpoonup> int pyval)
        ''round'' = Some (PStr ''NaN'') \<and>
     ([''type'' \<mapsto> PStr ''TCP_MAERTS'', ''bw'' \<mapsto> PInt 7, ''msize'' \<mapsto> PInt 2,
          ''driver'' \<mapsto> PStr ''NaN'', ''format'' \<mapsto> PStr ''NaN'',
          ''round'' \<mapsto> PStr ''NaN'', ''backend'' \<mapsto> PStr ''NaN''] :: string \<rightharpoonup> int pyval)
        ''backend'' = Some (PStr ''NaN'')"
proof -
  have "get_kpis_from_raw_data (\<lambda>x::int. x)
     (PDict [(''metadata'', PDict [(''SERIES_META'', PDict
        [(''TCP download'', PDict
            [(''COMMAND'', PStr ''netperf -t TCP_MAERTS -l 60''),
             (''UNITS'', PStr ''Mbits/s''), (''MEAN_VALUE'', PInt 7),
             (''SEND_SIZE'', PInt 2048)])])])])
     = (Some [''type'' \<mapsto> PStr ''TCP_MAERTS'', ''bw'' \<mapsto> PInt 7, ''msize'' \<mapsto> PInt 2,
          ''driver'' \<mapsto> PStr ''NaN'', ''format'' \<mapsto> PStr ''NaN'',
          ''round'' \<mapsto> PStr ''NaN'', ''backend'' \<mapsto> PStr ''NaN''], [])"
    by (simp add: get_kpis_from_raw_data_def extract_kpis_def tcp_series_def is_tcp_def
        is_space_def default_nan_def)
  then show ?thesis by (rule kpi_record_keys)
qed

text \<open>
  C7. When the names \<^verbatim>\<open>TCP upload\<close> and \<^verbatim>\<open>TCP download\<close> both occur among the series,
  \<open>first\<close> before \<open>second\<close>, the \<open>type\<close>, \<open>bw\<close> and \<open>msize\<close> of an extracted record are
  those derived from the series \<open>second\<close>.
\<close>

theorem last_series_wins:
  assumes "getitem raw_data ''metadata'' = Inr md"
    and "getitem md ''SERIES_META'' = Inr (PDict series)"
    and "filter is_tcp (map fst series) = [first, second]"
    and "first \<noteq> second"
    and "get_kpis_from_raw_data fdiv raw_data = (Some perf_kpi, out)"
  shows "\<exists>entry command g mean send_size q.
           map_of series second = Some entry \<and>
           getitem entry ''COMMAND'' = Inr (PStr command) \<and> re_search command = Some g \<and>
           getitem entry ''MEAN_VALUE'' = Inr mean \<and>
           getitem entry ''SEND_SIZE'' = Inr send_size \<and>
           floordiv_1024 fdiv send_size = Inr q \<and>
           perf_kpi ''type'' = Some (PStr g) \<and>
           perf_kpi ''bw'' = Some mean \<and>
           perf_kpi ''msize'' = Some q"
proof -
  from assms(5) have "extract_kpis fdiv raw_data = Inr perf_kpi"
    by (simp add: get_kpis_Some_iff)
  with assms(1,2,3) obtain k where
    loop: "series_loop fdiv (PDict series) [first, second] Map.empty = Inr k"
    and kpi: "perf_kpi = default_nan ''backend'' (default_nan ''round''
                (default_nan ''format'' (default_nan ''driver'' k)))"
    unfolding extract_kpis_Inr_iff by auto
  from assms(3) have "first \<in> set (filter is_tcp (map fst series))"
    and "second \<in> set (filter is_tcp (map fst series))" by simp_all
  then have tcp: "is_tcp first" "is_tcp second" by simp_all
  from loop tcp obtain k1 where
    "tcp_series fdiv (PDict series) first Map.empty = Inr k1"
    and k2: "tcp_series fdiv (PDict series) second k1 = Inr k"
    by (auto simp: is_tcp_not_ping and_then_Inr_iff)
  from k2 obtain entry command g mean send_size q where
    e: "getitem (PDict series) second = Inr entry"
    and c: "getitem entry ''COMMAND'' = Inr (PStr command)" "re_search command = Some g"
    and m: "getitem entry ''MEAN_VALUE'' = Inr mean"
    and s: "getitem entry ''SEND_SIZE'' = Inr send_size" "floordiv_1024 fdiv send_size = Inr q"
    and k: "k = k1(''type'' \<mapsto> PStr g, ''bw'' \<mapsto> mean, ''msize'' \<mapsto> q)"
    unfolding tcp_series_Inr_iff by blast
  from e have "map_of series second = Some entry"
    by (simp split: option.splits)
  moreover have "perf_kpi ''type'' = Some (PStr g)" "perf_kpi ''bw'' = Some mean"
    "perf_kpi ''msize'' = Some q"
    unfolding kpi k by (simp_all add: default_nan_apply)
  ultimately show ?thesis using c m s by blast
qed

theorem last_series_wins_witness:
  "\<exists>entry command g mean send_size q.
     map_of [(''TCP download'', PDict
                [(''COMMAND'', PStr ''netperf -t TCP_MAERTS -l 60''),
                 (''UNITS'', PStr ''Mbits/s''), (''MEAN_VALUE'', PInt 7),
                 (''SEND_SIZE'', PInt 2048)]),
             (''TCP upload'', PDict
                [(''COMMAND'', PStr ''netperf -t TCP_STREAM -l 60''),
                 (''UNITS'', PStr ''Mbits/s''), (''MEAN_VALUE'', PInt 941),
                 (''SEND_SIZE'', PInt 131072)])] ''TCP upload'' = Some entry \<and>
     getitem entry ''COMMAND'' = Inr (PStr command) \<and> re_search command = Some g \<and>
     getitem entry ''MEAN_VALUE'' = Inr mean \<and>
     getitem entry ''SEND_SIZE'' = Inr send_size \<and>
     floordiv_1024 (\<lambda>x::int. x) send_size = Inr q \<and>
     ([''type'' \<mapsto> PStr ''TCP_STREAM'', ''bw'' \<mapsto> PInt 941, ''msize'' \<mapsto> PInt 128,
      ''driver'' \<mapsto> PStr ''NaN'', ''format'' \<mapsto> PStr ''NaN'',
      ''round'' \<mapsto> PStr ''NaN'', ''backend'' \<mapsto> PStr ''NaN''] :: string \<rightharpoonup> int pyval)
        ''type'' = Some (PStr g) \<and>
     ([''type'' \<mapsto> PStr ''TCP_STREAM'', ''bw'' \<mapsto> PInt 941, ''msize'' \<mapsto> PInt 128,
      ''driver'' \<mapsto> PStr ''NaN'', ''format'' \<mapsto> PStr ''NaN'',
      ''round'' \<mapsto> PStr ''NaN'', ''backend'' \<mapsto> PStr ''NaN''] :: string \<rightharpoonup> int pyval)
        ''bw'' = Some mean \<and>
     ([''type'' \<mapsto> PStr ''TCP_STREAM'', ''bw'' \<mapsto> PInt 941, ''msize'' \<mapsto> PInt 128,
      ''driver'' \<mapsto> PStr ''NaN'', ''format'' \<mapsto> PStr ''NaN'',
      ''round'' \<mapsto> PStr ''NaN'', ''backend'' \<mapsto> PStr ''NaN''] :: string \<rightharpoonup> int pyval)
        ''msize'' = Some q"
proof -
  let ?series = "[(''TCP download'', PDict
                [(''COMMAND'', PStr ''netperf -t TCP_MAERTS -l 60''),
                 (''UNITS'', PStr ''Mbits/s''), (''MEAN_VALUE'', PInt 7),
                 (''SEND_SIZE'', PInt 2048)]),
             (''TCP upload'', PDict
                [(''COMMAND'', PStr ''netperf -t TCP_STREAM -l 60''),
                 (''UNITS'', PStr ''Mbits/s''), (''MEAN_VALUE'', PInt 941),
                 (''SEND_SIZE'', PInt 131072)])] :: (string \<times> int pyval) list"
  let ?raw = "PDict [(''metadata'', PDict [(''SERIES_META'', PDict ?series)])]"
  have run: "get_kpis_from_raw_data (\<lambda>x::int. x) ?raw
     = (Some [''type'' \<mapsto> PStr ''TCP_STREAM'', ''bw'' \<mapsto> PInt 941, ''msize'' \<mapsto> PInt 128,
          ''driver'' \<mapsto> PStr ''NaN'', ''format'' \<mapsto> PStr ''NaN'',
          ''round'' \<mapsto> PStr ''NaN'', ''backend'' \<mapsto> PStr ''NaN''], [])"
    by (simp add: get_kpis_from_raw_data_def extract_kpis_def tcp_series_def is_tcp_def
        is_space_def default_nan_def)
  have md: "getitem ?raw ''metadata'' = Inr (PDict [(''SERIES_META'', PDict ?series)])"
    by simp
  have sm: "getitem (PDict [(''SERIES_META'', PDict ?series)]) ''SERIES_META''
            = Inr (PDict ?series)" by simp
  have names: "filter is_tcp (map fst ?series) = [''TCP download'', ''TCP upload'']"
    by (simp add: is_tcp_def)
  have ne: "''TCP download'' \<noteq> ''TCP upload''" by simp
  show ?thesis by (rule last_series_wins [OF md sm names ne run])
qed

section \<open>Facts about the batch\<close>

lemma print_Nil: "print [] st = st"
  by (simp add: print_def)

lemma print_fields:
  "raw_data_list (print out st) = raw_data_list st"
  "perf_kpi_list (print out st) = perf_kpi_list st"
  "files (print out st) = files st"
  "listing (print out st) = listing st"
  "writable (print out st) = writable st"
  "stdout (print out st) = stdout st @ out"
  by (simp_all add: print_def)

lemma get_kpis_Some_out:
  "fst (get_kpis_from_raw_data fdiv raw_data) = Some k \<Longrightarrow>
   get_kpis_from_raw_data fdiv raw_data = (Some k, [])"
  by (cases "get_kpis_from_raw_data fdiv raw_data") (simp add: get_kpis_Some_iff)

lemma calculate_loop_frame:
  "calculate_loop fdiv rs st = (r, st') \<Longrightarrow>
   raw_data_list st' = raw_data_list st \<and> files st' = files st \<and>
   listing st' = listing st \<and> writable st' = writable st \<and>
   (\<exists>new. perf_kpi_list st' = perf_kpi_list st @ new)"
proof (induction rs arbitrary: st)
  case Nil
  then show ?case by auto
next
  case (Cons raw rs)
  show ?case
  proof (cases "get_kpis_from_raw_data fdiv raw")
    case (Pair res out)
    show ?thesis
    proof (cases res)
      case None
      with Pair Cons.prems show ?thesis by (auto simp: print_fields)
    next
      case (Some k)
      with Pair Cons.prems have
        "calculate_loop fdiv rs ((print out st)\<lparr>perf_kpi_list := perf_kpi_list st @ [k]\<rparr>)
         = (r, st')" by simp
      from Cons.IH [OF this] show ?thesis by (auto simp: print_fields)
    qed
  qed
qed

lemma calculate_loop_stops:
  assumes "map (\<lambda>r. fst (get_kpis_from_raw_data fdiv r)) before = map Some kpis"
    and "fst (get_kpis_from_raw_data fdiv bad) = None"
  shows "fst (calculate_loop fdiv (before @ bad # after) st) = 1 \<and>
         perf_kpi_list (snd (calculate_loop fdiv (before @ bad # after) st))
           = perf_kpi_list st @ kpis"
  using assms(1)
proof (induction before arbitrary: st kpis)
  case Nil
  with assms(2) show ?case
    by (cases "get_kpis_from_raw_data fdiv bad") (simp add: print_fields)
next
  case (Cons raw before)
  from Cons.prems obtain k ks where kpis: "kpis = k # ks"
    and k: "fst (get_kpis_from_raw_data fdiv raw) = Some k"
    and ks: "map (\<lambda>r. fst (get_kpis_from_raw_data fdiv r)) before = map Some ks"
    by (cases kpis) auto
  from k have run: "get_kpis_from_raw_data fdiv raw = (Some k, [])"
    by (rule get_kpis_Some_out)
  from Cons.IH [OF ks, of "(print [] st)\<lparr>perf_kpi_list := perf_kpi_list st @ [k]\<rparr>"]
  show ?case by (simp add: run kpis print_fields)
qed

lemma calculate_loop_ignores_rest:
  assumes "map (\<lambda>r. fst (get_kpis_from_raw_data fdiv r)) before = map Some kpis"
    and "fst (get_kpis_from_raw_data fdiv bad) = None"
  shows "calculate_loop fdiv (before @ bad # after) st
           = calculate_loop fdiv (before @ [bad]) st"
  using assms(1)
proof (induction before arbitrary: st kpis)
  case Nil
  with assms(2) show ?case
    by (cases "get_kpis_from_raw_data fdiv bad") simp
next
  case (Cons raw before)
  from Cons.prems obtain k ks where kpis: "kpis = k # ks"
    and k: "fst (get_kpis_from_raw_data fdiv raw) = Some k"
    and ks: "map (\<lambda>r. fst (get_kpis_from_raw_data fdiv r)) before = map Some ks"
    by (cases kpis) auto
  from k have run: "get_kpis_from_raw_data fdiv raw = (Some k, [])"
    by (rule get_kpis_Some_out)
  from Cons.IH [OF ks, of "(print [] st)\<lparr>perf_kpi_list := perf_kpi_list st @ [k]\<rparr>"]
  show ?case by (simp add: run)
qed

lemma calculate_loop_fails:
  "raw \<in> set rs \<Longrightarrow> fst (get_kpis_from_raw_data fdiv raw) = None \<Longrightarrow>
   fst (calculate_loop fdiv rs st) = 1"
proof (induction rs arbitrary: st)
  case Nil
  then show ?case by simp
next
  case (Cons r rs)
  show ?case
  proof (cases "get_kpis_from_raw_data fdiv r")
    case (Pair res out)
    show ?thesis
    proof (cases res)
      case None
      with Pair show ?thesis by simp
    next
      case (Some k)
      with Pair Cons.prems have "raw \<in> set rs" by auto
      from Cons.IH [OF this Cons.prems(2)] Pair Some show ?thesis by simp
    qed
  qed
qed

lemma calculate_loop_passes:
  "map (\<lambda>r. fst (get_kpis_from_raw_data fdiv r)) rs = map Some kpis \<Longrightarrow>
   calculate_loop fdiv rs st = (0, st\<lparr>perf_kpi_list := perf_kpi_list st @ kpis\<rparr>)"
proof (induction rs arbitrary: st kpis)
  case Nil
  then show ?case by simp
next
  case (Cons raw rs)
  from Cons.prems obtain k ks where kpis: "kpis = k # ks"
    and k: "fst (get_kpis_from_raw_data fdiv raw) = Some k"
    and ks: "map (\<lambda>r. fst (get_kpis_from_raw_data fdiv r)) rs = map Some ks"
    by (cases kpis) auto
  from k have run: "get_kpis_from_raw_data fdiv raw = (Some k, [])"
    by (rule get_kpis_Some_out)
  from Cons.IH [OF ks, of "st\<lparr>perf_kpi_list := perf_kpi_list st @ [k]\<rparr>"]
  show ?case by (simp add: run kpis print_Nil)
qed

text \<open>
  C9. When the records before position \<open>k\<close> are extracted with success and the record
  at position \<open>k\<close> is not, the calculation returns 1 and the list of indicators holds,
  after what it held before, the records extracted from the positions before \<open>k\<close>.
\<close>

theorem calculation_keeps_earlier_kpis:
  assumes "k < length (raw_data_list st)"
    and "map (\<lambda>r. fst (get_kpis_from_raw_data fdiv r)) (take k (raw_data_list st))
         = map Some kpis"
    and "fst (get_kpis_from_raw_data fdiv (raw_data_list st ! k)) = None"
  shows "fst (calculate_performance_kpis fdiv self st) = 1 \<and>
         perf_kpi_list (snd (calculate_performance_kpis fdiv self st))
           = perf_kpi_list st @ kpis"
proof -
  from assms(1) have "raw_data_list st =
      take k (raw_data_list st) @ raw_data_list st ! k # drop (Suc k) (raw_data_list st)"
    by (rule id_take_nth_drop)
  then have "calculate_performance_kpis fdiv self st =
      calculate_loop fdiv
        (take k (raw_data_list st) @ raw_data_list st ! k # drop (Suc k) (raw_data_list st)) st"
    by (simp add: calculate_performance_kpis_def)
  with calculate_loop_stops [OF assms(2,3)] show ?thesis by simp
qed

theorem calculation_keeps_earlier_kpis_witness:
  "fst (calculate_performance_kpis (\<lambda>x::int. x) FlentTestReporter
     \<lparr>raw_data_list = [PDict [(''metadata'', PDict [(''SERIES_META'', PDict [])])], PNone],
      perf_kpi_list = [], files = Map.empty, listing = (\<lambda>p. None),
      writable = (\<lambda>p. False), stdout = []\<rparr>) = 1 \<and>
   perf_kpi_list (snd (calculate_performance_kpis (\<lambda>x::int. x) FlentTestReporter
     \<lparr>raw_data_list = [PDict [(''metadata'', PDict [(''SERIES_META'', PDict [])])], PNone],
      perf_kpi_list = [], files = Map.empty, listing = (\<lambda>p. None),
      writable = (\<lambda>p. False), stdout = []\<rparr>))
   = perf_kpi_list
     \<lparr>raw_data_list = [PDict [(''metadata'', PDict [(''SERIES_META'', PDict [])])], PNone],
      perf_kpi_list = [], files = Map.empty, listing = (\<lambda>p. None),
      writable = (\<lambda>p. False), stdout = []\<rparr>
     @ [[''driver'' \<mapsto> PStr ''NaN'', ''format'' \<mapsto> PStr ''NaN'',
         ''round'' \<mapsto> PStr ''NaN'', ''backend'' \<mapsto> PStr ''NaN'']]"
proof -
  let ?st = "\<lparr>raw_data_list =
        [PDict [(''metadata'', PDict [(''SERIES_META'', PDict [])])], PNone :: int pyval],
      perf_kpi_list = [], files = Map.empty, listing = (\<lambda>p. None),
      writable = (\<lambda>p. False), stdout = []\<rparr>"
  have pos: "1 < length (raw_data_list ?st)" by simp
  have good: "map (\<lambda>r. fst (get_kpis_from_raw_data (\<lambda>x::int. x) r)) (take 1 (raw_data_list ?st))
      = map Some [[''driver'' \<mapsto> PStr ''NaN'', ''format'' \<mapsto> PStr ''NaN'',
                   ''round'' \<mapsto> PStr ''NaN'', ''backend'' \<mapsto> PStr ''NaN'']]"
    by (simp add: get_kpis_from_raw_data_def extract_kpis_def default_nan_def)
  have bad: "fst (get_kpis_from_raw_data (\<lambda>x::int. x) (raw_data_list ?st ! 1)) = None"
    by (simp add: get_kpis_from_raw_data_def extract_kpis_def)
  show ?thesis by (rule calculation_keeps_earlier_kpis [OF pos good bad])
qed

lemma tcp_series_bad_unit:
  "getitem series_meta name = Inr entry \<Longrightarrow> getitem entry ''UNITS'' = Inr u \<Longrightarrow>
   u \<noteq> PStr ''Mbits/s'' \<Longrightarrow> tcp_series fdiv series_meta name k \<noteq> Inr k'"
  by (auto simp: tcp_series_Inr_iff)

lemma series_loop_bad_unit:
  assumes "is_tcp name" "getitem series_meta name = Inr entry"
    and "getitem entry ''UNITS'' = Inr u" "u \<noteq> PStr ''Mbits/s''"
  shows "name \<in> set names \<Longrightarrow> series_loop fdiv series_meta names k \<noteq> Inr k'"
proof (induction names arbitrary: k)
  case Nil
  then show ?case by simp
next
  case (Cons n names)
  show ?case
  proof (cases "is_tcp n")
    case True
    show ?thesis
    proof
      assume "series_loop fdiv series_meta (n # names) k = Inr k'"
      then have "and_then (tcp_series fdiv series_meta n k)
                   (series_loop fdiv series_meta names) = Inr k'"
        unfolding series_loop_tcp_Cons [OF True] .
      then obtain k1 where k1: "tcp_series fdiv series_meta n k = Inr k1"
        and rest: "series_loop fdiv series_meta names k1 = Inr k'"
        unfolding and_then_Inr_iff by blast
      show False
      proof (cases "n = name")
        case True
        with k1 tcp_series_bad_unit [OF assms(2,3,4)] show False by blast
      next
        case False
        with Cons.prems have "name \<in> set names" by simp
        from Cons.IH [OF this] rest show False by blast
      qed
    qed
  next
    case False
    with assms(1) have "n \<noteq> name" by auto
    with Cons.prems have "name \<in> set names" by simp
    from Cons.IH [OF this] False show ?thesis by simp
  qed
qed

lemma get_kpis_bad_unit:
  assumes "getitem raw_data ''metadata'' = Inr md"
    and "getitem md ''SERIES_META'' = Inr series_meta"
    and "is_tcp name"
    and "getitem series_meta name = Inr entry"
    and "getitem entry ''UNITS'' = Inr u"
    and "u \<noteq> PStr ''Mbits/s''"
  shows "fst (get_kpis_from_raw_data fdiv raw_data) = None"
proof (cases "fst (get_kpis_from_raw_data fdiv raw_data)")
  case None
  then show ?thesis .
next
  case (Some k)
  then have "extract_kpis fdiv raw_data = Inr k"
    using get_kpis_Some_out get_kpis_Some_iff by blast
  with assms(1,2) obtain series k0 where sm: "series_meta = PDict series"
    and loop: "series_loop fdiv (PDict series) (filter is_tcp (map fst series)) Map.empty = Inr k0"
    unfolding extract_kpis_Inr_iff by auto
  from assms(4) sm have "map_of series name = Some entry"
    by (simp split: option.splits)
  then have "name \<in> set (map fst series)"
    by (metis map_of_SomeD image_eqI fst_conv set_map)
  with assms(3) have "name \<in> set (filter is_tcp (map fst series))" by simp
  from series_loop_bad_unit [OF assms(3) assms(4) [unfolded sm] assms(5,6) this] loop
  show ?thesis by blast
qed




text \<open>
  C2. A record with a series named \<^verbatim>\<open>TCP upload\<close> or \<^verbatim>\<open>TCP download\<close> whose unit is a
  string other than \<^verbatim>\<open>Mbits/s\<close> is not extracted; a batch that holds such a record
  returns 1, the records after it are not looked at, and the whole run ends with
  \<^verbatim>\<open>exit(1)\<close> before a table is built or a file is written.
\<close>

theorem unit_mismatch_aborts:
  assumes "getitem raw_data ''metadata'' = Inr md"
    and "getitem md ''SERIES_META'' = Inr series_meta"
    and "is_tcp name"
    and "getitem series_meta name = Inr entry"
    and "getitem entry ''UNITS'' = Inr (PStr unit)"
    and "unit \<noteq> ''Mbits/s''"
  shows "fst (get_kpis_from_raw_data fdiv raw_data) = None \<and>
    (raw_data \<in> set (raw_data_list st) \<longrightarrow>
       fst (calculate_performance_kpis fdiv self st) = 1) \<and>
    (map (\<lambda>r. fst (get_kpis_from_raw_data fdiv r)) before = map Some kpis \<longrightarrow>
       calculate_loop fdiv (before @ raw_data # after) st
         = calculate_loop fdiv (before @ [raw_data]) st) \<and>
    (load_raw_data_from_flent_logs FlentTestReporter [''result_path'' \<mapsto> result_path] st0
       = Inr (0, st1) \<longrightarrow>
     raw_data \<in> set (raw_data_list st1) \<longrightarrow>
       (\<exists>st2. generate_flent_test_report lib result_path report_csv st0
                 = (Exit 1, FlentTestReporter, st2) \<and>
              files st2 = files st1))"
proof -
  from assms(6) have ne: "PStr unit \<noteq> PStr ''Mbits/s''" by simp
  have none: "fst (get_kpis_from_raw_data f raw_data) = None" for f
    using assms(1-5) ne by (rule get_kpis_bad_unit)
  have batch: "fst (calculate_performance_kpis fdiv self st) = 1"
    if "raw_data \<in> set (raw_data_list st)"
    unfolding calculate_performance_kpis_def
    using that none by (rule calculate_loop_fails)
  have stops: "calculate_loop fdiv (before @ raw_data # after) st
         = calculate_loop fdiv (before @ [raw_data]) st"
    if "map (\<lambda>r. fst (get_kpis_from_raw_data fdiv r)) before = map Some kpis"
    using that none by (rule calculate_loop_ignores_rest)
  have run: "\<exists>st2. generate_flent_test_report lib result_path report_csv st0
                 = (Exit 1, FlentTestReporter, st2) \<and> files st2 = files st1"
    if load: "load_raw_data_from_flent_logs FlentTestReporter
                [''result_path'' \<mapsto> result_path] st0 = Inr (0, st1)"
      and mem: "raw_data \<in> set (raw_data_list st1)"
  proof -
    obtain r st2 where calc:
      "calculate_performance_kpis (float_floordiv_1024 lib) FlentTestReporter st1 = (r, st2)"
      by (cases "calculate_performance_kpis (float_floordiv_1024 lib) FlentTestReporter st1")
    have "fst (calculate_performance_kpis (float_floordiv_1024 lib) FlentTestReporter st1) = 1"
      unfolding calculate_performance_kpis_def
      using mem none by (rule calculate_loop_fails)
    with calc have r: "r = 1" by simp
    from calc have "files st2 = files st1"
      unfolding calculate_performance_kpis_def
      by (auto dest: calculate_loop_frame)
    moreover have "generate_flent_test_report lib result_path report_csv st0
                 = (Exit 1, FlentTestReporter, st2)"
      by (simp add: generate_flent_test_report_def load calc r)
    ultimately show ?thesis by blast
  qed
  from none batch stops run show ?thesis by blast
qed

theorem unit_mismatch_aborts_witness:
  "fst (get_kpis_from_raw_data (\<lambda>x::int. x) (PDict [(''metadata'', PDict [(''SERIES_META'', PDict
        [(''TCP upload'', PDict
            [(''COMMAND'', PStr ''netperf -t TCP_STREAM -l 60''),
             (''UNITS'', PStr ''Kbits/s''), (''MEAN_VALUE'', PInt 941),
             (''SEND_SIZE'', PInt 131072)])])])])) = None \<and>
   fst (calculate_performance_kpis (\<lambda>x::int. x) FlentTestReporter (\<lparr>raw_data_list = [PDict [(''metadata'', PDict [(''SERIES_META'', PDict [])])], PDict [(''metadata'', PDict [(''SERIES_META'', PDict
        [(''TCP upload'', PDict
            [(''COMMAND'', PStr ''netperf -t TCP_STREAM -l 60''),
             (''UNITS'', PStr ''Kbits/s''), (''MEAN_VALUE'', PInt 941),
             (''SEND_SIZE'', PInt 131072)])])])] :: int pyval], perf_kpi_list = [],
      files = [''/d/a.flent'' \<mapsto> Json (PDict [(''metadata'', PDict [(''SERIES_META'', PDict
        [(''TCP upload'', PDict
            [(''COMMAND'', PStr ''netperf -t TCP_STREAM -l 60''),
             (''UNITS'', PStr ''Kbits/s''), (''MEAN_VALUE'', PInt 941),
             (''SEND_SIZE'', PInt 131072)])])])])],
      listing = [''/d'' \<mapsto> [''a.flent'']],
      writable = (\<lambda>p. True), stdout = []\<rparr>)) = 1 \<and>
   calculate_loop (\<lambda>x::int. x) ([PDict [(''metadata'', PDict [(''SERIES_META'', PDict [])])]] @ PDict [(''metadata'', PDict [(''SERIES_META'', PDict
        [(''TCP upload'', PDict
            [(''COMMAND'', PStr ''netperf -t TCP_STREAM -l 60''),
             (''UNITS'', PStr ''Kbits/s''), (''MEAN_VALUE'', PInt 941),
             (''SEND_SIZE'', PInt 131072)])])])] # [PDict [(''metadata'', PDict [(''SERIES_META'', PDict [])])]]) (\<lparr>raw_data_list = [PDict [(''metadata'', PDict [(''SERIES_META'', PDict [])])], PDict [(''metadata'', PDict [(''SERIES_META'', PDict
        [(''TCP upload'', PDict
            [(''COMMAND'', PStr ''netperf -t TCP_STREAM -l 60''),
             (''UNITS'', PStr ''Kbits/s''), (''MEAN_VALUE'', PInt 941),
             (''SEND_SIZE'', PInt 131072)])])])] :: int pyval], perf_kpi_list = [],
      files = [''/d/a.flent'' \<mapsto> Json (PDict [(''metadata'', PDict [(''SERIES_META'', PDict
        [(''TCP upload'', PDict
            [(''COMMAND'', PStr ''netperf -t TCP_STREAM -l 60''),
             (''UNITS'', PStr ''Kbits/s''), (''MEAN_VALUE'', PInt 941),
             (''SEND_SIZE'', PInt 131072)])])])])],
      listing = [''/d'' \<mapsto> [''a.flent'']],
      writable = (\<lambda>p. True), stdout = []\<rparr>)
     = calculate_loop (\<lambda>x::int. x) ([PDict [(''metadata'', PDict [(''SERIES_META'', PDict [])])]] @ [PDict [(''metadata'', PDict [(''SERIES_META'', PDict
        [(''TCP upload'', PDict
            [(''COMMAND'', PStr ''netperf -t TCP_STREAM -l 60''),
             (''UNITS'', PStr ''Kbits/s''), (''MEAN_VALUE'', PInt 941),
             (''SEND_SIZE'', PInt 131072)])])])]]) (\<lparr>raw_data_list = [PDict [(''metadata'', PDict [(''SERIES_META'', PDict [])])], PDict [(''metadata'', PDict [(''SERIES_META'', PDict
        [(''TCP upload'', PDict
            [(''COMMAND'', PStr ''netperf -t TCP_STREAM -l 60''),
             (''UNITS'', PStr ''Kbits/s''), (''MEAN_VALUE'', PInt 941),
             (''SEND_SIZE'', PInt 131072)])])])] :: int pyval], perf_kpi_list = [],
      files = [''/d/a.flent'' \<mapsto> Json (PDict [(''metadata'', PDict [(''SERIES_META'', PDict
        [(''TCP upload'', PDict
            [(''COMMAND'', PStr ''netperf -t TCP_STREAM -l 60''),
             (''UNITS'', PStr ''Kbits/s''), (''MEAN_VALUE'', PInt 941),
             (''SEND_SIZE'', PInt 131072)])])])])],
      listing = [''/d'' \<mapsto> [''a.flent'']],
      writable = (\<lambda>p. True), stdout = []\<rparr>) \<and>
   (\<exists>st2. generate_flent_test_report (\<lparr>float_floordiv_1024 = (\<lambda>x::int. x), sort_code = (\<lambda>c. 0::nat),
       round4 = (\<lambda>x. x), csv_field = (\<lambda>c. [])\<rparr>) ''/d'' ''/d/report.csv'' (\<lparr>raw_data_list = [], perf_kpi_list = [],
      files = [''/d/a.flent'' \<mapsto> Json (PDict [(''metadata'', PDict [(''SERIES_META'', PDict
        [(''TCP upload'', PDict
            [(''COMMAND'', PStr ''netperf -t TCP_STREAM -l 60''),
             (''UNITS'', PStr ''Kbits/s''), (''MEAN_VALUE'', PInt 941),
             (''SEND_SIZE'', PInt 131072)])])])])],
      listing = [''/d'' \<mapsto> [''a.flent'']],
      writable = (\<lambda>p. True), stdout = []\<rparr>)
            = (Exit 1, FlentTestReporter, st2) \<and>
          files st2 = files (load_loop ''/d'' [''a.flent''] (\<lparr>raw_data_list = [], perf_kpi_list = [],
      files = [''/d/a.flent'' \<mapsto> Json (PDict [(''metadata'', PDict [(''SERIES_META'', PDict
        [(''TCP upload'', PDict
            [(''COMMAND'', PStr ''netperf -t TCP_STREAM -l 60''),
             (''UNITS'', PStr ''Kbits/s''), (''MEAN_VALUE'', PInt 941),
             (''SEND_SIZE'', PInt 131072)])])])])],
      listing = [''/d'' \<mapsto> [''a.flent'']],
      writable = (\<lambda>p. True), stdout = []\<rparr>)))"
proof -
  let ?bad = "PDict [(''metadata'', PDict [(''SERIES_META'', PDict
        [(''TCP upload'', PDict
            [(''COMMAND'', PStr ''netperf -t TCP_STREAM -l 60''),
             (''UNITS'', PStr ''Kbits/s''), (''MEAN_VALUE'', PInt 941),
             (''SEND_SIZE'', PInt 131072)])])])] :: int pyval"
  let ?good = "PDict [(''metadata'', PDict [(''SERIES_META'', PDict [])])] :: int pyval"
  let ?batch = "\<lparr>raw_data_list = [PDict [(''metadata'', PDict [(''SERIES_META'', PDict [])])], PDict [(''metadata'', PDict [(''SERIES_META'', PDict
        [(''TCP upload'', PDict
            [(''COMMAND'', PStr ''netperf -t TCP_STREAM -l 60''),
             (''UNITS'', PStr ''Kbits/s''), (''MEAN_VALUE'', PInt 941),
             (''SEND_SIZE'', PInt 131072)])])])] :: int pyval], perf_kpi_list = [],
      files = [''/d/a.flent'' \<mapsto> Json (PDict [(''metadata'', PDict [(''SERIES_META'', PDict
        [(''TCP upload'', PDict
            [(''COMMAND'', PStr ''netperf -t TCP_STREAM -l 60''),
             (''UNITS'', PStr ''Kbits/s''), (''MEAN_VALUE'', PInt 941),
             (''SEND_SIZE'', PInt 131072)])])])])],
      listing = [''/d'' \<mapsto> [''a.flent'']],
      writable = (\<lambda>p. True), stdout = []\<rparr>"
  let ?init = "\<lparr>raw_data_list = [], perf_kpi_list = [],
      files = [''/d/a.flent'' \<mapsto> Json (PDict [(''metadata'', PDict [(''SERIES_META'', PDict
        [(''TCP upload'', PDict
            [(''COMMAND'', PStr ''netperf -t TCP_STREAM -l 60''),
             (''UNITS'', PStr ''Kbits/s''), (''MEAN_VALUE'', PInt 941),
             (''SEND_SIZE'', PInt 131072)])])])])],
      listing = [''/d'' \<mapsto> [''a.flent'']],
      writable = (\<lambda>p. True), stdout = []\<rparr>"
  let ?lib = "\<lparr>float_floordiv_1024 = (\<lambda>x::int. x), sort_code = (\<lambda>c. 0::nat),
       round4 = (\<lambda>x. x), csv_field = (\<lambda>c. [])\<rparr>"
  have md: "getitem ?bad ''metadata'' = Inr (PDict [(''SERIES_META'', PDict
        [(''TCP upload'', PDict
            [(''COMMAND'', PStr ''netperf -t TCP_STREAM -l 60''),
             (''UNITS'', PStr ''Kbits/s''), (''MEAN_VALUE'', PInt 941),
             (''SEND_SIZE'', PInt 131072)])])])" by simp
  have sm: "getitem (PDict [(''SERIES_META'', PDict
        [(''TCP upload'', PDict
            [(''COMMAND'', PStr ''netperf -t TCP_STREAM -l 60''),
             (''UNITS'', PStr ''Kbits/s''), (''MEAN_VALUE'', PInt 941),
             (''SEND_SIZE'', PInt 131072)])])]) ''SERIES_META'' = Inr (PDict
        [(''TCP upload'', PDict
            [(''COMMAND'', PStr ''netperf -t TCP_STREAM -l 60''),
             (''UNITS'', PStr ''Kbits/s''), (''MEAN_VALUE'', PInt 941),
             (''SEND_SIZE'', PInt 131072)])] :: int pyval)" by simp
  have tcp: "is_tcp ''TCP upload''" by (simp add: is_tcp_def)
  have entry: "getitem (PDict
        [(''TCP upload'', PDict
            [(''COMMAND'', PStr ''netperf -t TCP_STREAM -l 60''),
             (''UNITS'', PStr ''Kbits/s''), (''MEAN_VALUE'', PInt 941),
             (''SEND_SIZE'', PInt 131072)])]) ''TCP upload'' = Inr (PDict
            [(''COMMAND'', PStr ''netperf -t TCP_STREAM -l 60''),
             (''UNITS'', PStr ''Kbits/s''), (''MEAN_VALUE'', PInt 941),
             (''SEND_SIZE'', PInt 131072)] :: int pyval)" by simp
  have unit: "getitem (PDict
            [(''COMMAND'', PStr ''netperf -t TCP_STREAM -l 60''),
             (''UNITS'', PStr ''Kbits/s''), (''MEAN_VALUE'', PInt 941),
             (''SEND_SIZE'', PInt 131072)] :: int pyval) ''UNITS'' = Inr (PStr ''Kbits/s'')"
    by simp
  have ne: "''Kbits/s'' \<noteq> ''Mbits/s''" by simp
  note T = unit_mismatch_aborts [OF md sm tcp entry unit ne,
      where fdiv = "\<lambda>x::int. x" and st = ?batch and self = FlentTestReporter
        and before = "[?good]" and kpis = "[[''driver'' \<mapsto> PStr ''NaN'', ''format'' \<mapsto> PStr ''NaN'',
       ''round'' \<mapsto> PStr ''NaN'', ''backend'' \<mapsto> PStr ''NaN'']]" and after = "[?good]"
        and result_path = "''/d''" and ?st0.0 = ?init
        and ?st1.0 = "load_loop ''/d'' [''a.flent''] ?init" and lib = ?lib
        and report_csv = "''/d/report.csv''"]
  have mem: "?bad \<in> set (raw_data_list ?batch)" by simp
  have before: "map (\<lambda>r. fst (get_kpis_from_raw_data (\<lambda>x::int. x) r)) [?good]
      = map Some [[''driver'' \<mapsto> PStr ''NaN'', ''format'' \<mapsto> PStr ''NaN'',
       ''round'' \<mapsto> PStr ''NaN'', ''backend'' \<mapsto> PStr ''NaN'']]"
    by (simp add: get_kpis_from_raw_data_def extract_kpis_def default_nan_def)
  have load: "load_raw_data_from_flent_logs FlentTestReporter [''result_path'' \<mapsto> ''/d''] ?init
      = Inr (0, load_loop ''/d'' [''a.flent''] ?init)"
    by (simp add: load_raw_data_from_flent_logs_def)
  have mem1: "?bad \<in> set (raw_data_list (load_loop ''/d'' [''a.flent''] ?init))"
    by (simp add: load_entry_def endswith_def isfile_def get_raw_data_from_flent_log_def
        json_load_def print_def Let_def)
  from T have a: "fst (get_kpis_from_raw_data (\<lambda>x::int. x) ?bad) = None" by (rule conjunct1)
  from T [THEN conjunct2, THEN conjunct1] mem
  have b: "fst (calculate_performance_kpis (\<lambda>x::int. x) FlentTestReporter ?batch) = 1"
    by (rule mp)
  from T [THEN conjunct2, THEN conjunct2, THEN conjunct1] before
  have c: "calculate_loop (\<lambda>x::int. x) ([?good] @ ?bad # [?good]) ?batch
     = calculate_loop (\<lambda>x::int. x) ([?good] @ [?bad]) ?batch"
    by (rule mp)
  from T [THEN conjunct2, THEN conjunct2, THEN conjunct2, THEN mp, OF load, THEN mp, OF mem1]
  have d: "\<exists>st2. generate_flent_test_report ?lib ''/d'' ''/d/report.csv'' ?init
            = (Exit 1, FlentTestReporter, st2) \<and>
          files st2 = files (load_loop ''/d'' [''a.flent''] ?init)" .
  from a b c d show ?thesis by (intro conjI)
qed



end
